theory Spec2Isabelle
  imports Complex_Main "HOL-Library.AList" "HOL-Library.Log_Nat"
begin

section \<open>Data model\<close>

text \<open>
  A shallow embedding of the agents of the multi-agent image analysis system:
  \<^verbatim>\<open>analysis_agent.py\<close>, \<^verbatim>\<open>coordinator_agent.py\<close>, \<^verbatim>\<open>model_management_agent.py\<close> and
  \<^verbatim>\<open>image_processing_agent.py\<close>.

  Python objects live in a store (\<open>heap\<close>) and are named by references, because the
  analysis agent keeps a reference to the model management agent that the coordinator
  initialises and cleans up. Exceptions are values: the \<open>try\<close> block of a method is a function
  into a sum type (\<open>Inl\<close> carries \<open>str(e)\<close>), and the method itself applies its
  \<open>except\<close> handler to it.

  The \<^verbatim>\<open>st.info\<close>, \<^verbatim>\<open>st.success\<close>, \<^verbatim>\<open>st.error\<close>, \<^verbatim>\<open>st.toast\<close> and \<^verbatim>\<open>st.spinner\<close>
  calls only render text. They are traced for \<open>initialize_system\<close>, whose report of the
  missing agents is such a call, and left out elsewhere. Message texts are written without
  their leading emoji. The timing fields \<^verbatim>\<open>processing_time\<close> and \<^verbatim>\<open>total_processing_time\<close>
  are differences of wall-clock floats; the records below leave them out.
\<close>

type_synonym ref = nat

record image =
  mode :: string
  size_wh :: "int \<times> int"

datatype metadata =
    EmptyMetadata
  | Metadata (md_model_id: string) (md_device: "string option")
      (md_image_size: "int \<times> int") (md_timestamp: string)

datatype workflow_metadata =
    EmptyWorkflowMetadata
  | WorkflowMetadata (system_operation_count: int) (agents_involved: "string list")
      (wf_timestamp: string)

text \<open>
  The dictionaries returned by \<open>analyze_image\<close> and \<open>process_image_analysis\<close>. A field
  that is \<open>None\<close> stands for a key that is absent or bound to Python's \<^verbatim>\<open>None\<close>;
  \<open>EmptyMetadata\<close> and \<open>EmptyWorkflowMetadata\<close> are the empty dictionary \<^verbatim>\<open>{}\<close>.
\<close>

record result =
  success :: bool
  error :: "string option"
  caption :: "string option"
  prompt :: "string option"
  max_tokens :: "int option"
  metadata :: "metadata option"
  workflow_metadata :: "workflow_metadata option"

datatype blip_processor = BlipProcessor string

datatype blip_model = BlipForConditionalGeneration string string

record model_management_agent =
  model_id :: string
  model :: "blip_model option"
  processor :: "blip_processor option"
  device :: "string option"
  is_loaded :: bool

text \<open>
  \<open>register_agent\<close> accepts any object, and the coordinator probes its agents with
  \<^verbatim>\<open>hasattr\<close>. An \<open>other_object\<close> is an instance of a class outside the four
  agents, such as the test suite's \<^verbatim>\<open>MockModelAgent\<close>: it may have an \<^verbatim>\<open>is_loaded\<close>
  attribute, a \<^verbatim>\<open>get_model_status\<close> method (which raises, \<open>Inl\<close>, or returns a dictionary
  whose \<^verbatim>\<open>is_loaded\<close> entry may be missing) and a \<^verbatim>\<open>get_statistics\<close> method (which raises or
  returns a dictionary whose \<^verbatim>\<open>message\<close> entry may be missing), and has no other
  attribute that the agents use.
\<close>

record other_object =
  class_name :: string
  attr_is_loaded :: "bool option"
  other_get_model_status :: "(string + bool option) option"
  other_get_statistics :: "(string + string option) option"

datatype obj =
    ModelManagementAgent model_management_agent
  | ImageProcessingAgent
  | AnalysisAgent (model_agent: ref) (analysis_history: "result list")
  | UIAgent
  | OtherObject other_object

text \<open>
  What the program reads from outside itself. The model samples
  (\<^verbatim>\<open>do_sample=True\<close>) and a download may fail at one time and succeed at another, so
  every outcome is indexed by the number of earlier calls of the same kind.
  \<^item> \<open>run_processor n image prompt\<close>: the \<open>n\<close>-th call \<^verbatim>\<open>processor(image, text=prompt,
    return_tensors="pt").to(device)\<close>; \<open>Some msg\<close> when it raises.
  \<^item> \<open>run_generate n image prompt max_tokens\<close>: \<^verbatim>\<open>model.generate\<close> followed by
    \<^verbatim>\<open>processor.decode\<close> in that call; \<open>Inl msg\<close> when one of them raises, \<open>Inr\<close> the caption.
  \<^item> \<open>processor_from_pretrained n model_id\<close> and \<open>model_from_pretrained n model_id device\<close>:
    the \<open>n\<close>-th load; \<open>Some msg\<close> when it raises.
  \<^item> \<open>convert_raises mode\<close>: \<open>Some msg\<close> when \<^verbatim>\<open>image.convert('RGB')\<close> raises on an
    image of that mode.
\<close>

record env =
  cuda_is_available :: bool
  processor_from_pretrained :: "nat \<Rightarrow> string \<Rightarrow> string option"
  model_from_pretrained :: "nat \<Rightarrow> string \<Rightarrow> string \<Rightarrow> string option"
  run_processor :: "nat \<Rightarrow> image \<Rightarrow> string \<Rightarrow> string option"
  run_generate :: "nat \<Rightarrow> image \<Rightarrow> string \<Rightarrow> int \<Rightarrow> string + string"
  convert_raises :: "string \<Rightarrow> string option"

section \<open>Exceptions raised by the interpreter\<close>

definition quoted :: "string \<Rightarrow> string" where
  "quoted s = [CHR 0x27] @ s @ [CHR 0x27]"

text \<open>\<^verbatim>\<open>str(e)\<close> of the \<^verbatim>\<open>AttributeError\<close> for a missing attribute.\<close>

definition attribute_error :: "string \<Rightarrow> string \<Rightarrow> string" where
  "attribute_error cls attr = quoted cls @ '' object has no attribute '' @ quoted attr"

text \<open>\<^verbatim>\<open>str(e)\<close> of the \<^verbatim>\<open>KeyError\<close> for a missing dictionary key.\<close>

definition key_error :: "string \<Rightarrow> string" where
  "key_error k = quoted k"

fun class_of :: "obj \<Rightarrow> string" where
  "class_of (ModelManagementAgent m) = ''ModelManagementAgent''"
| "class_of ImageProcessingAgent = ''ImageProcessingAgent''"
| "class_of (AnalysisAgent ma hist) = ''AnalysisAgent''"
| "class_of UIAgent = ''UIAgent''"
| "class_of (OtherObject x) = class_name x"

section \<open>The analysis agent\<close>

text \<open>
  The part of the state that \<open>analyze_image\<close> changes: the agent's own
  \<^verbatim>\<open>analysis_history\<close> and the number of inference calls made so far.
\<close>

record analysis_st =
  history :: "result list"
  inference_calls :: nat

definition model_not_loaded :: result where
  "model_not_loaded =
     \<lparr>success = False,
      error = Some ''Model not loaded. Please initialize the model first.'',
      caption = None, prompt = None, max_tokens = None,
      metadata = Some EmptyMetadata, workflow_metadata = None\<rparr>"

definition analysis_failed :: "string \<Rightarrow> result" where
  "analysis_failed msg =
     \<lparr>success = False, error = Some (''Analysis failed: '' @ msg),
      caption = None, prompt = None, max_tokens = None,
      metadata = Some EmptyMetadata, workflow_metadata = None\<rparr>"

text \<open>
  The \<open>try\<close> block of \<open>analyze_image\<close> for an agent whose \<^verbatim>\<open>self.model_agent\<close> is the
  object \<open>ma\<close>. Only a \<open>ModelManagementAgent\<close> has the attributes \<^verbatim>\<open>processor\<close>,
  \<^verbatim>\<open>model\<close>, \<^verbatim>\<open>device\<close> and \<^verbatim>\<open>model_id\<close>; a \<^verbatim>\<open>None\<close> processor is not callable and
  a \<^verbatim>\<open>None\<close> model has no \<^verbatim>\<open>generate\<close>. The result is appended to the history on the
  successful path only.
\<close>

fun analyze_image_try ::
  "env \<Rightarrow> string \<Rightarrow> obj \<Rightarrow> image \<Rightarrow> string \<Rightarrow> int \<Rightarrow> analysis_st \<Rightarrow>
     (string \<times> analysis_st) + (result \<times> analysis_st)" where
  "analyze_image_try e now (ModelManagementAgent m) img p max_tok st =
     (if \<not> is_loaded m then Inr (model_not_loaded, st)
      else (case processor m of
              None \<Rightarrow> Inl (quoted ''NoneType'' @ '' object is not callable'', st)
            | Some pr \<Rightarrow>
               (let n = inference_calls st;
                    st1 = st\<lparr>inference_calls := Suc n\<rparr>
                in (case run_processor e n img p of
                      Some msg \<Rightarrow> Inl (msg, st1)
                    | None \<Rightarrow>
                       (case model m of
                          None \<Rightarrow> Inl (attribute_error ''NoneType'' ''generate'', st1)
                        | Some mdl \<Rightarrow>
                           (case run_generate e n img p max_tok of
                              Inl msg \<Rightarrow> Inl (msg, st1)
                            | Inr cap \<Rightarrow>
                               (let res =
                                  \<lparr>success = True, error = None, caption = Some cap,
                                   prompt = Some p, max_tokens = Some max_tok,
                                   metadata = Some (Metadata (model_id m) (device m)
                                                      (size_wh img) now),
                                   workflow_metadata = None\<rparr>
                                in Inr (res, st1\<lparr>history := history st1 @ [res]\<rparr>))))))))"
| "analyze_image_try e now (OtherObject x) img p max_tok st =
     (case attr_is_loaded x of
        None \<Rightarrow> Inl (attribute_error (class_name x) ''is_loaded'', st)
      | Some loaded \<Rightarrow>
         (if \<not> loaded then Inr (model_not_loaded, st)
          else Inl (attribute_error (class_name x) ''processor'', st)))"
| "analyze_image_try e now ma img p max_tok st =
     Inl (attribute_error (class_of ma) ''is_loaded'', st)"

definition analyze_image ::
  "env \<Rightarrow> string \<Rightarrow> obj \<Rightarrow> image \<Rightarrow> string \<Rightarrow> int \<Rightarrow> analysis_st \<Rightarrow> result \<times> analysis_st" where
  "analyze_image e now ma img p max_tok st =
     (case analyze_image_try e now ma img p max_tok st of
        Inl (msg, st') \<Rightarrow> (analysis_failed msg, st')
      | Inr r \<Rightarrow> r)"

text \<open>
  The first loop of \<open>analyze_with_multiple_prompts\<close>: it calls \<open>analyze_image\<close> for
  every prompt in turn and collects the results; it has no \<^verbatim>\<open>break\<close>.
\<close>

fun run_prompts ::
  "env \<Rightarrow> string \<Rightarrow> obj \<Rightarrow> image \<Rightarrow> string list \<Rightarrow> int \<Rightarrow> analysis_st \<Rightarrow>
     result list \<times> analysis_st" where
  "run_prompts e now ma img [] max_tok st = ([], st)"
| "run_prompts e now ma img (p # ps) max_tok st =
     (let (r, st1) = analyze_image e now ma img p max_tok st;
          (rs, st2) = run_prompts e now ma img ps max_tok st1
      in (r # rs, st2))"

definition all_attempts_failed :: result where
  "all_attempts_failed =
     \<lparr>success = False, error = Some ''All analysis attempts failed'',
      caption = None, prompt = None, max_tokens = None,
      metadata = Some EmptyMetadata, workflow_metadata = None\<rparr>"

text \<open>
  The second loop returns the first successful result; after it,
  \<^verbatim>\<open>results[-1] if results else {...}\<close>.
\<close>

definition select_result :: "result list \<Rightarrow> result" where
  "select_result results =
     (case find success results of
        Some r \<Rightarrow> r
      | None \<Rightarrow> (if results \<noteq> [] then last results else all_attempts_failed))"

definition analyze_with_multiple_prompts ::
  "env \<Rightarrow> string \<Rightarrow> obj \<Rightarrow> image \<Rightarrow> string list \<Rightarrow> int \<Rightarrow> analysis_st \<Rightarrow>
     result \<times> analysis_st" where
  "analyze_with_multiple_prompts e now ma img prompts max_tok st =
     (let (results, st') = run_prompts e now ma img prompts max_tok st
      in (select_result results, st'))"

text \<open>
  Python's \<^verbatim>\<open>xs[start:]\<close>: a negative start counts from the end and is clamped
  at the beginning, a start beyond the end gives the empty list.
\<close>

definition slice_from :: "'a list \<Rightarrow> int \<Rightarrow> 'a list" where
  "slice_from xs start =
     (let n = int (length xs);
          i = (if start < 0 then max (start + n) 0 else min start n)
      in drop (nat i) xs)"

text \<open>\<^verbatim>\<open>self.analysis_history[-limit:] if self.analysis_history else []\<close>\<close>

definition get_analysis_history :: "result list \<Rightarrow> int \<Rightarrow> result list" where
  "get_analysis_history hist limit = (if hist \<noteq> [] then slice_from hist (- limit) else [])"

text \<open>
  \<open>get_statistics\<close>: the message dictionary for an empty history, the counts otherwise
  (the rate and time entries are floats and are left out).
\<close>

datatype statistics =
    StatsMessage string
  | Stats (total_analyses: nat) (successful_analyses: nat) (failed_analyses: nat)

definition get_statistics :: "result list \<Rightarrow> statistics" where
  "get_statistics hist =
     (if hist = [] then StatsMessage ''No analysis history available''
      else Stats (length hist) (length (filter success hist))
             (length (filter (\<lambda>r. \<not> success r) hist)))"

section \<open>The image processing agent\<close>

text \<open>
  Python floats are IEEE 754 binary64 numbers. \<open>fl x\<close> is the binary64 number nearest to
  the rational \<open>x\<close>, ties to the even significand: with \<open>2 ^ e \<le> \<bar>x\<bar> < 2 ^ (e + 1)\<close> the
  spacing of the numbers around \<open>x\<close> is \<open>2 ^ (e - 52)\<close>. Exponents are not bounded here,
  so \<open>fl\<close> is the rounding of the machine wherever neither overflow nor underflow
  occurs; every quantity below lies between \<open>2 ^ - 1013\<close> and \<open>2 ^ 1023\<close> for images whose
  sides are below \<open>2 ^ 1023\<close> pixels.
\<close>

definition round_half_even :: "rat \<Rightarrow> int" where
  "round_half_even q =
     (let f = \<lfloor>q\<rfloor>; d = q - of_int f
      in if d < 1 / 2 then f
         else if 1 / 2 < d then f + 1
         else if even f then f else f + 1)"

text \<open>\<open>\<lfloor>log\<^sub>2 x\<rfloor>\<close> for a positive rational, from the bit lengths of numerator and denominator.\<close>

definition binary_exponent :: "rat \<Rightarrow> int" where
  "binary_exponent x =
     (let (a, b) = quotient_of x;
          e = bitlen a - bitlen b
      in if 2 powi e \<le> x then e else e - 1)"

definition fl_pos :: "rat \<Rightarrow> rat" where
  "fl_pos x =
     (let u = 2 powi (binary_exponent x - 52)
      in of_int (round_half_even (x / u)) * u)"

definition fl :: "rat \<Rightarrow> rat" where
  "fl x = (if x = 0 then 0 else if 0 < x then fl_pos x else - fl_pos (- x))"

text \<open>\<^verbatim>\<open>a / b\<close> on integers: the correctly rounded quotient.\<close>

definition int_truediv :: "int \<Rightarrow> int \<Rightarrow> rat" where
  "int_truediv a b = fl (of_int a / of_int b)"

text \<open>\<^verbatim>\<open>dim * ratio\<close> with an integer \<^verbatim>\<open>dim\<close>: the integer is converted to a float, then
  the product is rounded.\<close>

definition int_times_float :: "int \<Rightarrow> rat \<Rightarrow> rat" where
  "int_times_float d ratio = fl (fl (of_int d) * ratio)"

text \<open>\<^verbatim>\<open>int(x)\<close> truncates towards zero.\<close>

definition int_of_float :: "rat \<Rightarrow> int" where
  "int_of_float x = (if 0 \<le> x then \<lfloor>x\<rfloor> else \<lceil>x\<rceil>)"

definition max_dimension :: int where
  "max_dimension = 1024"

text \<open>
  \<^verbatim>\<open>ratio = max_dimension / max(image.size)\<close> and
  \<^verbatim>\<open>new_size = tuple(int(dim * ratio) for dim in image.size)\<close>
\<close>

definition new_size :: "int \<times> int \<Rightarrow> int \<times> int" where
  "new_size sz =
     (let ratio = int_truediv max_dimension (max (fst sz) (snd sz))
      in (int_of_float (int_times_float (fst sz) ratio),
          int_of_float (int_times_float (snd sz) ratio)))"

text \<open>
  Pillow: \<^verbatim>\<open>convert('RGB')\<close> gives an image of the same size in mode RGB, or raises;
  \<^verbatim>\<open>resize\<close> raises \<^verbatim>\<open>ValueError\<close> unless both sides of the requested size are positive.
\<close>

definition pil_convert_rgb :: "env \<Rightarrow> image \<Rightarrow> string + image" where
  "pil_convert_rgb e img =
     (case convert_raises e (mode img) of
        Some msg \<Rightarrow> Inl msg
      | None \<Rightarrow> Inr (img\<lparr>mode := ''RGB''\<rparr>))"

definition pil_resize :: "image \<Rightarrow> int \<times> int \<Rightarrow> string + image" where
  "pil_resize img sz =
     (if fst sz < 1 \<or> snd sz < 1 then Inl ''height and width must be > 0''
      else Inr (img\<lparr>size_wh := sz\<rparr>))"

text \<open>
  The \<open>try\<close> block of \<open>preprocess_image\<close>. \<open>Inl\<close> carries the image that the variable
  \<^verbatim>\<open>image\<close> is bound to when the exception is raised, which the handler returns.
\<close>

definition preprocess_image_try :: "env \<Rightarrow> image \<Rightarrow> (string \<times> image) + image" where
  "preprocess_image_try e img =
     (case (if mode img \<noteq> ''RGB'' then pil_convert_rgb e img else Inr img) of
        Inl msg \<Rightarrow> Inl (msg, img)
      | Inr img1 \<Rightarrow>
         (if max (fst (size_wh img1)) (snd (size_wh img1)) > max_dimension then
            (case pil_resize img1 (new_size (size_wh img1)) of
               Inl msg \<Rightarrow> Inl (msg, img1)
             | Inr img2 \<Rightarrow> Inr img2)
          else Inr img1))"

definition preprocess_image :: "env \<Rightarrow> image \<Rightarrow> image" where
  "preprocess_image e img =
     (case preprocess_image_try e img of Inl (msg, img') \<Rightarrow> img' | Inr img' \<Rightarrow> img')"

section \<open>The model management agent and the resource cache\<close>

text \<open>
  The process-wide state behind \<^verbatim>\<open>@st.cache_resource\<close>: one table for each decorated
  function, keyed by the function's arguments, and the number of times each function's
  body has run.
\<close>

record resources =
  processor_cache :: "string \<rightharpoonup> blip_processor option \<times> string option"
  model_cache :: "string \<times> string \<rightharpoonup> blip_model option \<times> string option"
  processor_loads :: nat
  model_loads :: nat

text \<open>
  The bodies of \<^verbatim>\<open>_load_processor_cached\<close> and \<^verbatim>\<open>_load_model_cached\<close>: each catches every
  exception of the load and returns \<^verbatim>\<open>(None, str(e))\<close>, so a failed load is an ordinary
  return value.
\<close>

definition load_processor_body ::
  "env \<Rightarrow> nat \<Rightarrow> string \<Rightarrow> blip_processor option \<times> string option" where
  "load_processor_body e n mid =
     (case processor_from_pretrained e n mid of
        None \<Rightarrow> (Some (BlipProcessor mid), None)
      | Some msg \<Rightarrow> (None, Some msg))"

definition load_model_body ::
  "env \<Rightarrow> nat \<Rightarrow> string \<Rightarrow> string \<Rightarrow> blip_model option \<times> string option" where
  "load_model_body e n mid dev =
     (case model_from_pretrained e n mid dev of
        None \<Rightarrow> (Some (BlipForConditionalGeneration mid dev), None)
      | Some msg \<Rightarrow> (None, Some msg))"

text \<open>
  The decorated functions. \<^verbatim>\<open>st.cache_resource\<close> is Streamlit's memoising decorator: a
  call whose arguments have an entry returns the stored value without running the body;
  otherwise the body runs and the value it returns is stored under the arguments. The
  decorator stores whatever the body returns (an exception that leaves the body would not
  be stored, but these bodies let none out), and \<^verbatim>\<open>st.cache_resource.clear()\<close> empties
  every table.
\<close>

definition load_processor_cached ::
  "env \<Rightarrow> string \<Rightarrow> resources \<Rightarrow> (blip_processor option \<times> string option) \<times> resources" where
  "load_processor_cached e mid rs =
     (case processor_cache rs mid of
        Some v \<Rightarrow> (v, rs)
      | None \<Rightarrow>
         (let v = load_processor_body e (processor_loads rs) mid
          in (v, rs\<lparr>processor_cache := (processor_cache rs)(mid \<mapsto> v),
                     processor_loads := Suc (processor_loads rs)\<rparr>)))"

definition load_model_cached ::
  "env \<Rightarrow> string \<Rightarrow> string \<Rightarrow> resources \<Rightarrow> (blip_model option \<times> string option) \<times> resources" where
  "load_model_cached e mid dev rs =
     (case model_cache rs (mid, dev) of
        Some v \<Rightarrow> (v, rs)
      | None \<Rightarrow>
         (let v = load_model_body e (model_loads rs) mid dev
          in (v, rs\<lparr>model_cache := (model_cache rs)((mid, dev) \<mapsto> v),
                     model_loads := Suc (model_loads rs)\<rparr>)))"

definition cache_resource_clear :: "resources \<Rightarrow> resources" where
  "cache_resource_clear rs = rs\<lparr>processor_cache := Map.empty, model_cache := Map.empty\<rparr>"

definition get_device_info :: "env \<Rightarrow> string" where
  "get_device_info e = (if cuda_is_available e then ''cuda'' else ''cpu'')"

definition load_processor ::
  "env \<Rightarrow> model_management_agent \<Rightarrow> resources \<Rightarrow> blip_processor option \<times> resources" where
  "load_processor e m rs =
     (let ((pr, err), rs') = load_processor_cached e (model_id m) rs in (pr, rs'))"

definition load_model ::
  "env \<Rightarrow> model_management_agent \<Rightarrow> string \<Rightarrow> resources \<Rightarrow> blip_model option \<times> resources" where
  "load_model e m dev rs =
     (let ((md, err), rs') = load_model_cached e (model_id m) dev rs in (md, rs'))"

text \<open>
  \<open>initialize_model\<close> assigns \<^verbatim>\<open>self.device\<close>, \<^verbatim>\<open>self.processor\<close> and \<^verbatim>\<open>self.model\<close> as it
  goes, and sets \<^verbatim>\<open>is_loaded\<close> only after both loads returned an object.
\<close>

definition initialize_model ::
  "env \<Rightarrow> model_management_agent \<Rightarrow> resources \<Rightarrow>
     (bool \<times> string option) \<times> model_management_agent \<times> resources" where
  "initialize_model e m rs =
     (let dev = get_device_info e;
          m1 = m\<lparr>device := Some dev\<rparr>;
          (pr, rs1) = load_processor e m1 rs;
          m2 = m1\<lparr>processor := pr\<rparr>
      in if pr = None then ((False, Some ''Failed to load processor''), m2, rs1)
         else (let (md, rs2) = load_model e m2 dev rs1;
                   m3 = m2\<lparr>model := md\<rparr>
               in if md = None then ((False, Some ''Failed to load model''), m3, rs2)
                  else ((True, None), m3\<lparr>is_loaded := True\<rparr>, rs2)))"


section \<open>The coordinator\<close>

record system_status =
  initialized :: bool
  last_activity :: "string option"
  total_operations :: int

text \<open>
  The whole state: the coordinator's \<^verbatim>\<open>agents\<close> dictionary (in insertion order, as a Python
  dictionary keeps it) and \<^verbatim>\<open>system_status\<close>, the store of objects, the resource cache
  and the number of inference calls made so far.
\<close>

record state =
  agents :: "(string \<times> ref) list"
  system_status :: system_status
  heap :: "ref \<Rightarrow> obj"
  resources :: resources
  inferences :: nat

text \<open>\<^verbatim>\<open>self.agents[agent_name] = agent_instance\<close>\<close>

definition register_agent :: "string \<Rightarrow> ref \<Rightarrow> state \<Rightarrow> state" where
  "register_agent agent_name agent_instance s =
     s\<lparr>agents := AList.update agent_name agent_instance (agents s)\<rparr>"

datatype st_call = StInfo string | StSuccess string | StError string

text \<open>\<^verbatim>\<open>sep.join(xs)\<close>\<close>

fun join :: "string \<Rightarrow> string list \<Rightarrow> string" where
  "join sep [] = []"
| "join sep [x] = x"
| "join sep (x # y # ys) = x @ sep @ join sep (y # ys)"

definition required_agents :: "string list" where
  "required_agents = [''model_management'', ''image_processing'', ''analysis'', ''ui'']"

definition missing_agents :: "state \<Rightarrow> string list" where
  "missing_agents s = filter (\<lambda>agent. agent \<notin> set (map fst (agents s))) required_agents"

text \<open>How an f-string renders a value that is a string or \<^verbatim>\<open>None\<close>.\<close>

definition str_of :: "string option \<Rightarrow> string" where
  "str_of v = (case v of None \<Rightarrow> ''None'' | Some x \<Rightarrow> x)"

text \<open>
  \<open>initialize_system\<close> returns its boolean together with the display calls it makes
  itself. Its \<open>try\<close> block can raise only where it calls \<^verbatim>\<open>initialize_model\<close> on an
  object that is not a model management agent.
\<close>

definition initialize_system_try ::
  "env \<Rightarrow> string \<Rightarrow> state \<Rightarrow> (string \<times> st_call list) + ((bool \<times> st_call list) \<times> state)" where
  "initialize_system_try e now s =
     (let trace = [StInfo ''Initializing Multi-Agent System...'']
      in if missing_agents s \<noteq> [] then
           Inr ((False, trace @ [StError (''Missing agents: '' @ join '', '' (missing_agents s))]), s)
         else
           (case map_of (agents s) ''model_management'' of
              None \<Rightarrow> Inl (key_error ''model_management'', trace)
            | Some r \<Rightarrow>
               (case heap s r of
                  ModelManagementAgent m \<Rightarrow>
                    (let ((ok, err), m', rs') = initialize_model e m (resources s);
                         s1 = s\<lparr>heap := (heap s)(r := ModelManagementAgent m'), resources := rs'\<rparr>
                     in if \<not> ok then
                          Inr ((False, trace @ [StError (''Model initialization failed: ''
                                                           @ str_of err)]), s1)
                        else
                          Inr ((True, trace @ [StSuccess
                                  ''Multi-Agent System initialized successfully!'']),
                               s1\<lparr>system_status := (system_status s1)
                                     \<lparr>initialized := True, last_activity := Some now\<rparr>\<rparr>))
                | other \<Rightarrow>
                    Inl (attribute_error (class_of other) ''initialize_model'', trace))))"

definition initialize_system ::
  "env \<Rightarrow> string \<Rightarrow> state \<Rightarrow> (bool \<times> st_call list) \<times> state" where
  "initialize_system e now s =
     (case initialize_system_try e now s of
        Inl (msg, trace) \<Rightarrow>
          ((False, trace @ [StError (''System initialization failed: '' @ msg)]), s)
      | Inr r \<Rightarrow> r)"

definition system_not_initialized :: result where
  "system_not_initialized =
     \<lparr>success = False, error = Some ''System not initialized'',
      caption = None, prompt = None, max_tokens = None,
      metadata = None, workflow_metadata = Some EmptyWorkflowMetadata\<rparr>"

definition workflow_failed :: "string \<Rightarrow> result" where
  "workflow_failed msg =
     \<lparr>success = False, error = Some (''Workflow coordination failed: '' @ msg),
      caption = None, prompt = None, max_tokens = None,
      metadata = None, workflow_metadata = Some EmptyWorkflowMetadata\<rparr>"

definition increment_operations :: "state \<Rightarrow> state" where
  "increment_operations s =
     s\<lparr>system_status := (system_status s)
          \<lparr>total_operations := total_operations (system_status s) + 1\<rparr>\<rparr>"

text \<open>
  The \<open>try\<close> block of \<open>process_image_analysis\<close> after its first statement, the
  increment of \<^verbatim>\<open>total_operations\<close>. A missing key raises \<^verbatim>\<open>KeyError\<close>, an object without the
  method called on it raises \<^verbatim>\<open>AttributeError\<close>. The dictionary that \<open>analyze_image\<close>
  returns on success is the very object it appended to the history, so the assignment of
  \<^verbatim>\<open>workflow_metadata\<close> to it shows in the history as well.
\<close>

definition process_steps ::
  "env \<Rightarrow> string \<Rightarrow> image \<Rightarrow> string \<Rightarrow> int \<Rightarrow> state \<Rightarrow> (string \<times> state) + (result \<times> state)" where
  "process_steps e now img p max_tok s =
     (if \<not> initialized (system_status s) then Inr (system_not_initialized, s)
      else
        (case map_of (agents s) ''image_processing'' of
           None \<Rightarrow> Inl (key_error ''image_processing'', s)
         | Some ri \<Rightarrow>
            (case heap s ri of
               ImageProcessingAgent \<Rightarrow>
                 (let processed_image = preprocess_image e img
                  in (case map_of (agents s) ''analysis'' of
                        None \<Rightarrow> Inl (key_error ''analysis'', s)
                      | Some ra \<Rightarrow>
                         (case heap s ra of
                            AnalysisAgent rm hist \<Rightarrow>
                              (let (res, st') =
                                     analyze_image e now (heap s rm) processed_image p max_tok
                                       \<lparr>history = hist, inference_calls = inferences s\<rparr>;
                                   s1 = s\<lparr>heap := (heap s)(ra := AnalysisAgent rm (history st')),
                                          inferences := inference_calls st'\<rparr>;
                                   s2 = s1\<lparr>system_status := (system_status s1)
                                             \<lparr>last_activity := Some now\<rparr>\<rparr>;
                                   res' = res\<lparr>workflow_metadata := Some (WorkflowMetadata
                                            (total_operations (system_status s2))
                                            (map fst (agents s2)) now)\<rparr>
                               in Inr (res',
                                       if success res then
                                         s2\<lparr>heap := (heap s2)(ra := AnalysisAgent rm
                                                         (butlast (history st') @ [res']))\<rparr>
                                       else s2))
                          | other \<Rightarrow>
                              Inl (attribute_error (class_of other) ''analyze_image'', s))))
             | other \<Rightarrow> Inl (attribute_error (class_of other) ''preprocess_image'', s))))"

definition process_image_analysis ::
  "env \<Rightarrow> string \<Rightarrow> image \<Rightarrow> string \<Rightarrow> int \<Rightarrow> state \<Rightarrow> result \<times> state" where
  "process_image_analysis e now img p max_tok s =
     (case process_steps e now img p max_tok (increment_operations s) of
        Inl (msg, s') \<Rightarrow> (workflow_failed msg, s')
      | Inr r \<Rightarrow> r)"

text \<open>
  The health report. \<open>agent_health\<close> is the per-agent dictionary \<^verbatim>\<open>{'status', 'issues'}\<close>;
  in \<open>health_report\<close> the report's own \<^verbatim>\<open>issues\<close> list is the field \<open>report_issues\<close> and
  its \<^verbatim>\<open>agent_health\<close> dictionary the field \<open>agent_healths\<close>.
\<close>

record agent_health =
  status :: string
  issues :: "string list"

record health_report =
  overall_health :: string
  report_issues :: "string list"
  warnings :: "string list"
  agent_healths :: "(string \<times> agent_health) list"

definition healthy :: agent_health where
  "healthy = \<lparr>status = ''healthy'', issues = []\<rparr>"

text \<open>
  What \<^verbatim>\<open>hasattr(agent, 'get_model_status')\<close> and \<^verbatim>\<open>hasattr(agent, 'get_statistics')\<close>
  find, and what the call then does: \<open>None\<close> when the object has no such method, \<open>Inl\<close>
  when the call raises. \<open>get_model_status\<close> of a model management agent returns a
  dictionary with the entry \<^verbatim>\<open>is_loaded\<close>; of a returned dictionary only that entry is
  kept here, and of the statistics only the \<^verbatim>\<open>message\<close> entry, if any.
\<close>

fun get_model_status_method :: "obj \<Rightarrow> (string + bool option) option" where
  "get_model_status_method (ModelManagementAgent m) = Some (Inr (Some (is_loaded m)))"
| "get_model_status_method (OtherObject x) = other_get_model_status x"
| "get_model_status_method other = None"

fun get_statistics_method :: "obj \<Rightarrow> (string + string option) option" where
  "get_statistics_method (AnalysisAgent rm hist) =
     Some (Inr (case get_statistics hist of
                  StatsMessage message \<Rightarrow> Some message
                | Stats n ok bad \<Rightarrow> None))"
| "get_statistics_method (OtherObject x) = other_get_statistics x"
| "get_statistics_method other = None"

definition model_not_loaded_warning :: agent_health where
  "model_not_loaded_warning = \<lparr>status = ''warning'', issues = [''Model not loaded'']\<rparr>"

text \<open>
  The \<open>try\<close> block of the loop body of \<open>run_health_check\<close>: \<^verbatim>\<open>get_model_status\<close> is probed
  first, then \<^verbatim>\<open>get_statistics\<close>; \<open>Inl\<close> is an exception of the probe.
  \<^verbatim>\<open>status.get('is_loaded', True)\<close> takes a missing entry as loaded.
\<close>

definition probe_agent :: "obj \<Rightarrow> string + agent_health" where
  "probe_agent agent =
     (case get_model_status_method agent of
        Some (Inl msg) \<Rightarrow> Inl msg
      | Some (Inr entry) \<Rightarrow>
          Inr (if \<not> (case entry of None \<Rightarrow> True | Some b \<Rightarrow> b)
               then model_not_loaded_warning else healthy)
      | None \<Rightarrow>
         (case get_statistics_method agent of
            Some (Inl msg) \<Rightarrow> Inl msg
          | Some (Inr (Some message)) \<Rightarrow> Inr \<lparr>status = ''info'', issues = [message]\<rparr>
          | Some (Inr None) \<Rightarrow> Inr healthy
          | None \<Rightarrow> Inr healthy))"

definition check_agent :: "obj \<Rightarrow> agent_health" where
  "check_agent ob =
     (case probe_agent ob of
        Inl msg \<Rightarrow> \<lparr>status = ''error'', issues = [''Exception: '' @ msg]\<rparr>
      | Inr h \<Rightarrow> h)"

text \<open>One iteration of the loop over \<^verbatim>\<open>self.agents.items()\<close>.\<close>

definition health_step :: "(ref \<Rightarrow> obj) \<Rightarrow> health_report \<Rightarrow> string \<times> ref \<Rightarrow> health_report" where
  "health_step h rep entry =
     (let agent_name = fst entry;
          ah = check_agent (h (snd entry));
          rep1 = rep\<lparr>agent_healths := AList.update agent_name ah (agent_healths rep)\<rparr>
      in if status ah = ''error'' then
           rep1\<lparr>overall_health := ''unhealthy'',
                report_issues := report_issues rep1
                                   @ [agent_name @ '': '' @ join '', '' (issues ah)]\<rparr>
         else if status ah = ''warning'' then
           rep1\<lparr>warnings := warnings rep1 @ [agent_name @ '': '' @ join '', '' (issues ah)]\<rparr>
         else rep1)"

definition run_health_check :: "state \<Rightarrow> health_report" where
  "run_health_check s =
     foldl (health_step (heap s))
       \<lparr>overall_health = ''healthy'', report_issues = [], warnings = [], agent_healths = []\<rparr>
       (agents s)"





text \<open>
  A sequence of calls of \<open>process_image_analysis\<close>, each with its own clock reading and
  arguments.
\<close>

fun process_all :: "env \<Rightarrow> (string \<times> image \<times> string \<times> int) list \<Rightarrow> state \<Rightarrow> state" where
  "process_all e [] s = s"
| "process_all e ((now, img, p, max_tok) # requests) s =
     process_all e requests (snd (process_image_analysis e now img p max_tok s))"


section \<open>Concrete inputs\<close>

text \<open>The inputs at which the witnesses and counterexamples below are evaluated.\<close>

definition img0 :: image where
  "img0 = \<lparr>mode = ''RGB'', size_wh = (100, 100)\<rparr>"

definition blip_id :: string where
  "blip_id = ''Salesforce/blip-image-captioning-large''"

definition loaded_agent :: model_management_agent where
  "loaded_agent =
     \<lparr>model_id = blip_id,
      model = Some (BlipForConditionalGeneration blip_id ''cpu''),
      processor = Some (BlipProcessor blip_id),
      device = Some ''cpu'', is_loaded = True\<rparr>"

text \<open>An environment in which the first inference call raises and every later one succeeds.\<close>

definition env_first_fails :: env where
  "env_first_fails =
     \<lparr>cuda_is_available = False,
      processor_from_pretrained = (\<lambda>n mid. None),
      model_from_pretrained = (\<lambda>n mid dev. None),
      run_processor = (\<lambda>n im p. None),
      run_generate = (\<lambda>n im p mt.
         if n = 0 then Inl ''out of memory'' else Inr (''caption for '' @ p)),
      convert_raises = (\<lambda>m. None)\<rparr>"

definition new_model_management_agent :: model_management_agent where
  "new_model_management_agent =
     \<lparr>model_id = blip_id, model = None, processor = None, device = None, is_loaded = False\<rparr>"

text \<open>
  The objects that \<^verbatim>\<open>multi_agent_app.main\<close> creates, and the state once it has registered
  them with a new coordinator.
\<close>

definition app_heap :: "ref \<Rightarrow> obj" where
  "app_heap =
     (\<lambda>r. UIAgent)
       (0 := ImageProcessingAgent,
        1 := ModelManagementAgent new_model_management_agent,
        2 := AnalysisAgent 1 [])"

definition new_coordinator :: state where
  "new_coordinator =
     \<lparr>agents = [],
      system_status = \<lparr>initialized = False, last_activity = None, total_operations = 0\<rparr>,
      heap = app_heap,
      resources = \<lparr>processor_cache = Map.empty, model_cache = Map.empty,
                    processor_loads = 0, model_loads = 0\<rparr>,
      inferences = 0\<rparr>"

definition app_state :: state where
  "app_state =
     register_agent ''ui'' 3
       (register_agent ''analysis'' 2
          (register_agent ''model_management'' 1
             (register_agent ''image_processing'' 0 new_coordinator)))"

text \<open>An environment in which both loads succeed and every inference call raises.\<close>

definition env_inference_fails :: env where
  "env_inference_fails =
     \<lparr>cuda_is_available = False,
      processor_from_pretrained = (\<lambda>n mid. None),
      model_from_pretrained = (\<lambda>n mid dev. None),
      run_processor = (\<lambda>n im p. None),
      run_generate = (\<lambda>n im p mt. Inl ''out of memory''),
      convert_raises = (\<lambda>m. None)\<rparr>"

text \<open>An environment in which the first load of the processor raises and later loads
  succeed.\<close>

definition env_first_load_fails :: env where
  "env_first_load_fails =
     \<lparr>cuda_is_available = False,
      processor_from_pretrained = (\<lambda>n mid. if n = 0 then Some ''connection reset'' else None),
      model_from_pretrained = (\<lambda>n mid dev. if n = 0 then Some ''connection reset'' else None),
      run_processor = (\<lambda>n im p. None),
      run_generate = (\<lambda>n im p mt. Inr (''caption for '' @ p)),
      convert_raises = (\<lambda>m. None)\<rparr>"

text \<open>The application state after a successful \<open>initialize_system\<close>.\<close>

definition ready_state :: state where
  "ready_state = snd (initialize_system env_inference_fails ''2024-01-01 10:00:00'' app_state)"

text \<open>A coordinator with the model management agent registered and nothing else.\<close>

definition only_model_management :: state where
  "only_model_management = register_agent ''model_management'' 1 new_coordinator"

text \<open>
  An object whose \<^verbatim>\<open>get_model_status\<close> raises, and the application state with that object
  registered as a fifth agent.
\<close>

definition broken_mock :: obj where
  "broken_mock = OtherObject
     \<lparr>class_name = ''MockModelAgent'', attr_is_loaded = Some False,
      other_get_model_status = Some (Inl ''status unavailable''),
      other_get_statistics = None\<rparr>"

definition probed_state :: state where
  "probed_state =
     register_agent ''mock'' 4 (app_state\<lparr>heap := (heap app_state)(4 := broken_mock)\<rparr>)"

text \<open>A 2048 by 1000 image in mode RGBA, and a 5000 by 1 image.\<close>

definition wide_rgba :: image where
  "wide_rgba = \<lparr>mode = ''RGBA'', size_wh = (2048, 1000)\<rparr>"

definition thin_strip :: image where
  "thin_strip = \<lparr>mode = ''RGB'', size_wh = (5000, 1)\<rparr>"

definition st0 :: analysis_st where
  "st0 = \<lparr>history = [], inference_calls = 0\<rparr>"

section \<open>The history ledger\<close>

lemma slice_from_neg:
  "0 < k \<Longrightarrow> slice_from xs (- k) = drop (length xs - nat k) xs"
  by (auto simp: slice_from_def Let_def max_def nat_diff_distrib
           intro: arg_cong[where f="\<lambda>n. drop n xs"])

text \<open>For a positive limit the slice is the \<open>limit\<close> most recent records, in insertion order,
  and the whole history when the limit exceeds its length.\<close>

lemma get_analysis_history_pos:
  "0 < k \<Longrightarrow> get_analysis_history hist k = drop (length hist - nat k) hist"
  by (simp add: get_analysis_history_def slice_from_neg)

lemma get_analysis_history_zero: "get_analysis_history hist 0 = hist"
  by (simp add: get_analysis_history_def slice_from_def)

text \<open>
  Claim C5 (the code departs from it). \<open>Tail(0)\<close> is claimed to be empty. In the source the
  slice is \<^verbatim>\<open>analysis_history[-limit:]\<close>, and \<^verbatim>\<open>-0\<close> is \<^verbatim>\<open>0\<close>: on the history that two
  successful analyses leave, \<open>get_analysis_history\<close> with limit 0 returns both records,
  not the empty sequence.
\<close>

theorem get_analysis_history_limit_zero:
  "map prompt (get_analysis_history
     (history (snd (run_prompts env_first_fails ''t'' (ModelManagementAgent loaded_agent) img0
                      [''p1'', ''p2'', ''p3''] 50 st0))) 0)
     = [Some ''p2'', Some ''p3'']"
  by (simp add: get_analysis_history_def slice_from_def analyze_image_def env_first_fails_def
        loaded_agent_def img0_def st0_def Let_def analysis_failed_def)

section \<open>The multi-prompt analysis\<close>

lemma run_prompts_length:
  "length (fst (run_prompts e now ma img ps mt st)) = length ps"
  by (induction ps arbitrary: st) (simp_all add: Let_def case_prod_beta)


lemma analyze_image_error_text:
  "error (fst (analyze_image e now ma img p mt st)) \<noteq> Some ''All analysis attempts failed''"
  by (cases "(e, now, ma, img, p, mt, st)" rule: analyze_image_try.cases)
     (auto simp: analyze_image_def model_not_loaded_def analysis_failed_def Let_def
           split: option.splits sum.splits)

lemma run_prompts_error_text:
  "r \<in> set (fst (run_prompts e now ma img ps mt st)) \<Longrightarrow>
     error r \<noteq> Some ''All analysis attempts failed''"
proof (induction ps arbitrary: st)
  case Nil
  then show ?case by simp
next
  case (Cons p ps)
  then show ?case
    using analyze_image_error_text[of e now ma img p mt st]
    by (auto simp: Let_def case_prod_beta)
qed

lemma select_result_mem:
  "results \<noteq> [] \<Longrightarrow> select_result results \<in> set results"
  by (auto simp: select_result_def find_Some_iff split: option.splits)

text \<open>
  Claim C7. On an empty prompt sequence \<open>analyze_with_multiple_prompts\<close> returns the
  synthetic failure record (\<open>success = False\<close>, error text \<^verbatim>\<open>All analysis attempts failed\<close>)
  and leaves the history and the count of inference calls as they were: \<open>analyze_image\<close>
  is not called. That error text is the mark of the empty sequence: no record that
  \<open>analyze_image\<close> produces carries it, so the returned record has it exactly when no prompt
  was given.
\<close>

theorem multi_prompt_empty:
  "analyze_with_multiple_prompts e now ma img [] mt st = (all_attempts_failed, st)
   \<and> \<not> success all_attempts_failed
   \<and> error all_attempts_failed = Some ''All analysis attempts failed''
   \<and> (error (fst (analyze_with_multiple_prompts e now ma img prompts mt st))
          = Some ''All analysis attempts failed'' \<longleftrightarrow> prompts = [])"
proof -
  have a: "analyze_with_multiple_prompts e now ma img [] mt st = (all_attempts_failed, st)"
    by (simp add: analyze_with_multiple_prompts_def select_result_def)
  have b: "error all_attempts_failed = Some ''All analysis attempts failed''"
    "\<not> success all_attempts_failed"
    by (simp_all add: all_attempts_failed_def)
  have c: "error (fst (analyze_with_multiple_prompts e now ma img prompts mt st))
          \<noteq> Some ''All analysis attempts failed''" if "prompts \<noteq> []"
  proof -
    let ?rs = "fst (run_prompts e now ma img prompts mt st)"
    have "length ?rs = length prompts" by (rule run_prompts_length)
    with that have "?rs \<noteq> []" by auto
    then have "select_result ?rs \<in> set ?rs" by (rule select_result_mem)
    then show ?thesis
      using run_prompts_error_text[of "select_result ?rs" e now ma img prompts mt st]
      by (simp add: analyze_with_multiple_prompts_def case_prod_beta)
  qed
  from a b c show ?thesis by (cases "prompts = []") auto
qed




section \<open>The resource cache\<close>

text \<open>
  Claim C3 (amended). A failed construction is memoized like a successful one. When the
  cache has no entry for the key and the load raises, \<open>load_processor_cached\<close> returns
  \<open>(None, Some msg)\<close> after one run of its body; the next call for the same key, in
  whatever environment \<open>e'\<close>, returns the same failure and leaves the cache and the
  number of loads unchanged, so the body does not run again. Only after
  \<open>cache_resource_clear\<close> does a call run the body again. The same holds for
  \<open>load_model_cached\<close>.
\<close>

theorem failed_load_is_memoized:
  "(processor_cache rs mid = None
      \<and> processor_from_pretrained e (processor_loads rs) mid = Some msg
      \<longrightarrow> (let (r1, rs1) = load_processor_cached e mid rs;
               (r2, rs2) = load_processor_cached e' mid rs1;
               (r3, rs3) = load_processor_cached e' mid (cache_resource_clear rs2)
           in r1 = (None, Some msg) \<and> processor_loads rs1 = Suc (processor_loads rs)
              \<and> r2 = r1 \<and> rs2 = rs1
              \<and> r3 = load_processor_body e' (processor_loads rs1) mid
              \<and> processor_loads rs3 = Suc (processor_loads rs1)))
   \<and> (model_cache rs (mid, dev) = None
      \<and> model_from_pretrained e (model_loads rs) mid dev = Some msg
      \<longrightarrow> (let (r1, rs1) = load_model_cached e mid dev rs;
               (r2, rs2) = load_model_cached e' mid dev rs1;
               (r3, rs3) = load_model_cached e' mid dev (cache_resource_clear rs2)
           in r1 = (None, Some msg) \<and> model_loads rs1 = Suc (model_loads rs)
              \<and> r2 = r1 \<and> rs2 = rs1
              \<and> r3 = load_model_body e' (model_loads rs1) mid dev
              \<and> model_loads rs3 = Suc (model_loads rs1)))"
  by (simp add: load_processor_cached_def load_model_cached_def load_processor_body_def
        load_model_body_def cache_resource_clear_def Let_def)

lemmas cache_eval = load_processor_cached_def load_model_cached_def load_processor_body_def
  load_model_body_def cache_resource_clear_def env_first_load_fails_def new_coordinator_def
  blip_id_def Let_def

theorem failed_load_is_memoized_witness:
  "processor_cache (resources new_coordinator) blip_id = None
   \<and> processor_from_pretrained env_first_load_fails
        (processor_loads (resources new_coordinator)) blip_id = Some ''connection reset''
   \<and> model_cache (resources new_coordinator) (blip_id, ''cpu'') = None
   \<and> model_from_pretrained env_first_load_fails
        (model_loads (resources new_coordinator)) blip_id ''cpu'' = Some ''connection reset''
   \<and> fst (load_processor_cached env_first_load_fails blip_id
             (snd (load_processor_cached env_first_load_fails blip_id
                     (resources new_coordinator))))
       = (None, Some ''connection reset'')
   \<and> fst (load_model_cached env_first_load_fails blip_id ''cpu''
             (snd (load_model_cached env_first_load_fails blip_id ''cpu''
                     (resources new_coordinator))))
       = (None, Some ''connection reset'')"
  using failed_load_is_memoized
    [of "resources new_coordinator" blip_id env_first_load_fails "''connection reset''"
        env_first_load_fails "''cpu''"]
  by (simp add: cache_eval)

text \<open>
  Claim C3 as stated fails: the next call is claimed to invoke the factory again. Here
  the first load of the processor raises and a second load would succeed
  (\<open>processor_from_pretrained\<close> answers \<open>None\<close> at index 1); yet the second call for the same
  key returns the stored failure, and the body has still run once only. A second
  \<open>initialize_model\<close> therefore fails as the first did.
\<close>

theorem failed_load_not_retried_counterexample:
  "fst (load_processor_cached env_first_load_fails blip_id (resources new_coordinator))
     = (None, Some ''connection reset'')
   \<and> processor_from_pretrained env_first_load_fails 1 blip_id = None
   \<and> fst (load_processor_cached env_first_load_fails blip_id
            (snd (load_processor_cached env_first_load_fails blip_id
                    (resources new_coordinator))))
       = (None, Some ''connection reset'')
   \<and> processor_loads
        (snd (load_processor_cached env_first_load_fails blip_id
               (snd (load_processor_cached env_first_load_fails blip_id
                       (resources new_coordinator))))) = 1
   \<and> fst (initialize_model env_first_load_fails new_model_management_agent
             (snd (snd (initialize_model env_first_load_fails new_model_management_agent
                          (resources new_coordinator)))))
       = (False, Some ''Failed to load processor'')"
  by (simp add: cache_eval initialize_model_def load_processor_def load_model_def
        get_device_info_def new_model_management_agent_def)

section \<open>The coordinator's counter\<close>

lemma process_steps_total_operations:
  "process_steps e now img p mt s = Inl (msg, s') \<Longrightarrow>
     total_operations (system_status s') = total_operations (system_status s)"
  "process_steps e now img p mt s = Inr (res, s') \<Longrightarrow>
     total_operations (system_status s') = total_operations (system_status s)"
  by (auto simp: process_steps_def Let_def case_prod_beta
           split: if_splits option.splits obj.splits)

lemma process_steps_count:
  "process_steps e now img p mt s = Inr (res, s') \<Longrightarrow>
     workflow_metadata res = Some (WorkflowMetadata n ags t) \<Longrightarrow>
     n = total_operations (system_status s)"
  by (auto simp: process_steps_def Let_def case_prod_beta system_not_initialized_def
           split: if_splits option.splits obj.splits)

lemma process_image_analysis_total:
  "total_operations (system_status (snd (process_image_analysis e now img p mt s)))
     = total_operations (system_status s) + 1"
proof (cases "process_steps e now img p mt (increment_operations s)")
  case (Inl a)
  then show ?thesis
    using process_steps_total_operations(1)
            [of e now img p mt "increment_operations s" "fst a" "snd a"]
    by (simp add: process_image_analysis_def increment_operations_def case_prod_beta)
next
  case (Inr b)
  then show ?thesis
    using process_steps_total_operations(2)
            [of e now img p mt "increment_operations s" "fst b" "snd b"]
    by (simp add: process_image_analysis_def increment_operations_def case_prod_beta)
qed

lemma process_image_analysis_count:
  "workflow_metadata (fst (process_image_analysis e now img p mt s))
       = Some (WorkflowMetadata n ags t) \<Longrightarrow> n = total_operations (system_status s) + 1"
proof (cases "process_steps e now img p mt (increment_operations s)")
  case (Inl a)
  assume "workflow_metadata (fst (process_image_analysis e now img p mt s))
       = Some (WorkflowMetadata n ags t)"
  with Inl show ?thesis
    by (simp add: process_image_analysis_def case_prod_beta workflow_failed_def)
next
  case (Inr b)
  assume "workflow_metadata (fst (process_image_analysis e now img p mt s))
       = Some (WorkflowMetadata n ags t)"
  with Inr show ?thesis
    using process_steps_count[of e now img p mt "increment_operations s" "fst b" "snd b" n ags t]
    by (simp add: process_image_analysis_def increment_operations_def)
qed

lemma process_all_total:
  "total_operations (system_status (process_all e requests s))
     = total_operations (system_status s) + int (length requests)"
  by (induction e requests s rule: process_all.induct)
     (simp_all add: process_image_analysis_total)

text \<open>
  Claim C4. Every call of \<open>process_image_analysis\<close> leaves \<open>total_operations\<close> exactly
  one higher, whatever the state (initialised or not) and whatever the outcome (a
  record of the analysis, the record \<open>System not initialized\<close>, or the record of the
  handler after an exception). The increment comes before the other work: the operation
  count written into the workflow metadata is already the new one. Over a sequence of
  calls the counter grows by the number of calls, so it never decreases.
\<close>

theorem total_operations_counts_calls:
  "total_operations (system_status (snd (process_image_analysis e now img p mt s)))
     = total_operations (system_status s) + 1
   \<and> (\<forall>n ags t. workflow_metadata (fst (process_image_analysis e now img p mt s))
                    = Some (WorkflowMetadata n ags t)
          \<longrightarrow> n = total_operations (system_status s) + 1)
   \<and> total_operations (system_status (process_all e requests s))
       = total_operations (system_status s) + int (length requests)
   \<and> total_operations (system_status s)
       \<le> total_operations (system_status (process_all e requests s))"
  using process_image_analysis_total[of e now img p mt s]
    process_image_analysis_count[of e now img p mt s]
    process_all_total[of e requests s]
  by auto

lemmas fixture_defs = ready_state_def app_state_def new_coordinator_def app_heap_def
  register_agent_def env_inference_fails_def new_model_management_agent_def img0_def
  blip_id_def only_model_management_def

lemmas init_defs = initialize_system_def initialize_system_try_def missing_agents_def
  required_agents_def initialize_model_def load_processor_def load_model_def
  load_processor_cached_def load_model_cached_def load_processor_body_def
  load_model_body_def get_device_info_def

lemma ready_state_eval:
  "agents ready_state =
     [(''image_processing'', 0), (''model_management'', 1), (''analysis'', 2), (''ui'', 3)]"
  "system_status ready_state =
     \<lparr>initialized = True, last_activity = Some ''2024-01-01 10:00:00'', total_operations = 0\<rparr>"
  "heap ready_state 0 = ImageProcessingAgent"
  "heap ready_state 2 = AnalysisAgent (Suc 0) []"
  "heap ready_state (Suc 0) = ModelManagementAgent
     \<lparr>model_id = blip_id,
      model = Some (BlipForConditionalGeneration blip_id ''cpu''),
      processor = Some (BlipProcessor blip_id),
      device = Some ''cpu'', is_loaded = True\<rparr>"
  "inferences ready_state = 0"
  by (simp_all add: fixture_defs init_defs Let_def)

lemmas workflow_eval = process_image_analysis_def process_steps_def increment_operations_def
  ready_state_eval preprocess_image_def preprocess_image_try_def max_dimension_def
  analyze_image_def Let_def analysis_failed_def img0_def env_inference_fails_def

text \<open>
  The claim at a workflow whose inference raises, on the initialised application: the
  counter goes from 0 to 1 and the metadata of the returned record carries 1.
\<close>

theorem total_operations_counts_calls_witness:
  "workflow_metadata (fst (process_image_analysis env_inference_fails ''2024-01-01 10:05:00''
                             img0 ''a photography of'' 50 ready_state))
     = Some (WorkflowMetadata 1 [''image_processing'', ''model_management'', ''analysis'', ''ui'']
               ''2024-01-01 10:05:00'')
   \<and> total_operations (system_status ready_state) = 0
   \<and> total_operations (system_status (snd (process_image_analysis env_inference_fails
         ''2024-01-01 10:05:00'' img0 ''a photography of'' 50 ready_state))) = 1"
  using total_operations_counts_calls
    [of env_inference_fails "''2024-01-01 10:05:00''" img0 "''a photography of''" 50
        ready_state "[]"]
  by (simp add: workflow_eval)

section \<open>The history ledger and the workflow\<close>

text \<open>\<open>analyze_image\<close> appends to the history exactly when it returns a successful record.\<close>

lemma analyze_image_history:
  "history (snd (analyze_image e now ma img p mt st)) =
     (if success (fst (analyze_image e now ma img p mt st))
      then history st @ [fst (analyze_image e now ma img p mt st)] else history st)"
  by (cases "(e, now, ma, img, p, mt, st)" rule: analyze_image_try.cases)
     (auto simp: analyze_image_def model_not_loaded_def analysis_failed_def Let_def
           split: option.splits sum.splits)

text \<open>
  Claim C2 (the code departs from it). Records of failed inference are claimed to be
  appended to the ledger. On the initialised application with a loaded model, a workflow
  whose inference raises completes preprocessing, makes its inference call and returns a
  record with \<open>success = False\<close> and full workflow metadata, and the history of the analysis
  agent is still empty.
\<close>

theorem failed_inference_not_recorded:
  "success (fst (process_image_analysis env_inference_fails ''2024-01-01 10:05:00''
                   img0 ''a photography of'' 50 ready_state)) = False
   \<and> error (fst (process_image_analysis env_inference_fails ''2024-01-01 10:05:00''
                   img0 ''a photography of'' 50 ready_state))
       = Some ''Analysis failed: out of memory''
   \<and> inferences (snd (process_image_analysis env_inference_fails ''2024-01-01 10:05:00''
                        img0 ''a photography of'' 50 ready_state)) = 1
   \<and> heap (snd (process_image_analysis env_inference_fails ''2024-01-01 10:05:00''
                  img0 ''a photography of'' 50 ready_state)) 2 = AnalysisAgent 1 []"
  by (simp add: workflow_eval)

section \<open>Initialisation\<close>

text \<open>
  Claim C6 (amended). When some required key is absent, \<open>initialize_system\<close> returns
  \<open>False\<close>, reports with \<^verbatim>\<open>st.error\<close> exactly the absent required keys, by name and in the
  order of the list of required agents, and leaves the whole state as it was: the model
  management agent is not initialised and nothing is loaded. The required keys are the
  four keys \<^verbatim>\<open>model_management\<close>, \<^verbatim>\<open>image_processing\<close>, \<^verbatim>\<open>analysis\<close> and \<^verbatim>\<open>ui\<close>.
\<close>

theorem initialize_reports_missing_agents:
  "missing_agents s \<noteq> [] \<Longrightarrow>
     initialize_system e now s =
       ((False, [StInfo ''Initializing Multi-Agent System...'',
                 StError (''Missing agents: '' @ join '', '' (missing_agents s))]), s)
   \<and> missing_agents s = filter (\<lambda>a. map_of (agents s) a = None)
        [''model_management'', ''image_processing'', ''analysis'', ''ui'']"
  by (auto simp: initialize_system_def initialize_system_try_def missing_agents_def Let_def
        map_of_eq_None_iff required_agents_def)

text \<open>With only the model management agent registered, the other three keys are reported.\<close>

theorem initialize_reports_missing_agents_witness:
  "missing_agents only_model_management \<noteq> []
   \<and> initialize_system env_inference_fails ''2024-01-01 10:00:00'' only_model_management
       = ((False, [StInfo ''Initializing Multi-Agent System...'',
                   StError ''Missing agents: image_processing, analysis, ui'']),
          only_model_management)"
  using initialize_reports_missing_agents
    [of only_model_management env_inference_fails "''2024-01-01 10:00:00''"]
  by (simp add: missing_agents_def fixture_defs required_agents_def)

text \<open>
  Claim C6 as stated fails in its particular case: with only the resource manager
  registered, exactly two keys are claimed to be reported. Three are:
  \<^verbatim>\<open>image_processing\<close>, \<^verbatim>\<open>analysis\<close> and \<^verbatim>\<open>ui\<close>.
\<close>

theorem initialize_two_missing_counterexample:
  "missing_agents only_model_management = [''image_processing'', ''analysis'', ''ui'']
   \<and> length (missing_agents only_model_management) \<noteq> 2
   \<and> fst (initialize_system env_inference_fails ''2024-01-01 10:00:00'' only_model_management)
       = (False, [StInfo ''Initializing Multi-Agent System...'',
                  StError ''Missing agents: image_processing, analysis, ui''])"
  by (simp add: initialize_system_def initialize_system_try_def missing_agents_def
        fixture_defs required_agents_def)

section \<open>Cleanup\<close>








section \<open>The health check\<close>

lemma probe_Inr_not_error:
  "probe_agent ob = Inr h \<Longrightarrow> status h \<noteq> ''error''"
  by (auto simp: probe_agent_def healthy_def model_not_loaded_warning_def
           split: option.splits sum.splits if_splits)

lemma check_agent_error_iff:
  "status (check_agent ob) = ''error'' \<longleftrightarrow> isl (probe_agent ob)"
  by (cases "probe_agent ob") (auto simp: check_agent_def dest: probe_Inr_not_error)

lemma health_step_healths:
  "agent_healths (health_step h rep entry) =
     AList.update (fst entry) (check_agent (h (snd entry))) (agent_healths rep)"
  by (simp add: health_step_def Let_def)

lemma health_step_overall:
  "overall_health (health_step h rep entry) =
     (if status (check_agent (h (snd entry))) = ''error'' then ''unhealthy'' else overall_health rep)"
  by (simp add: health_step_def Let_def)

lemma update_fresh_key:
  "k \<notin> fst ` set al \<Longrightarrow> AList.update k v al = al @ [(k, v)]"
  by (induction al) auto

lemma foldl_health_healths:
  "distinct (map fst (agent_healths rep) @ map fst ags) \<Longrightarrow>
   agent_healths (foldl (health_step h) rep ags) =
     agent_healths rep @ map (\<lambda>entry. (fst entry, check_agent (h (snd entry)))) ags"
proof (induction ags arbitrary: rep)
  case Nil
  then show ?case by simp
next
  case (Cons a ags)
  from Cons.prems have fresh: "fst a \<notin> fst ` set (agent_healths rep)" by auto
  have step: "agent_healths (health_step h rep a)
      = agent_healths rep @ [(fst a, check_agent (h (snd a)))]"
    by (simp add: health_step_healths update_fresh_key[OF fresh])
  have d: "distinct (map fst (agent_healths (health_step h rep a)) @ map fst ags)"
    using Cons.prems by (auto simp: step)
  show ?case
    using Cons.IH[OF d] by (simp add: step)
qed

lemma foldl_health_overall:
  "overall_health (foldl (health_step h) rep ags) =
     (if \<exists>entry\<in>set ags. status (check_agent (h (snd entry))) = ''error'' then ''unhealthy''
      else overall_health rep)"
  by (induction ags arbitrary: rep) (auto simp: health_step_overall)

lemma run_health_check_healths:
  "distinct (map fst (agents s)) \<Longrightarrow>
   agent_healths (run_health_check s)
     = map (\<lambda>entry. (fst entry, check_agent (heap s (snd entry)))) (agents s)"
  using foldl_health_healths[of "\<lparr>overall_health = ''healthy'', report_issues = [], warnings = [], agent_healths = []\<rparr>" "agents s" "heap s"]
  by (simp add: run_health_check_def)

text \<open>
  Claim C8. For a registry (its keys are distinct, as the keys of a dictionary are) the
  report of \<open>run_health_check\<close> has one entry for every registered agent, under its key:
  the entry is \<open>warning\<close> with the issue \<^verbatim>\<open>Model not loaded\<close> when the agent's
  \<^verbatim>\<open>get_model_status\<close> reports \<^verbatim>\<open>is_loaded\<close> false; it is \<open>error\<close> exactly when probing the
  agent raises, and then its issue is the captured message. The overall health is
  \<open>unhealthy\<close> exactly when some entry is \<open>error\<close>, and \<open>healthy\<close> otherwise, whatever the
  warnings.
\<close>

theorem health_check_report:
  "distinct (map fst (agents s)) \<Longrightarrow>
   (let rep = run_health_check s in
      map fst (agent_healths rep) = map fst (agents s)
    \<and> (\<forall>(name, r) \<in> set (agents s).
          map_of (agent_healths rep) name = Some (check_agent (heap s r))
        \<and> (get_model_status_method (heap s r) = Some (Inr (Some False))
             \<longrightarrow> check_agent (heap s r)
                   = \<lparr>status = ''warning'', issues = [''Model not loaded'']\<rparr>)
        \<and> (status (check_agent (heap s r)) = ''error'' \<longleftrightarrow> isl (probe_agent (heap s r)))
        \<and> (\<forall>msg. probe_agent (heap s r) = Inl msg
             \<longrightarrow> check_agent (heap s r)
                   = \<lparr>status = ''error'', issues = [''Exception: '' @ msg]\<rparr>))
    \<and> (overall_health rep = ''unhealthy''
          \<longleftrightarrow> (\<exists>(name, ah) \<in> set (agent_healths rep). status ah = ''error''))
    \<and> (overall_health rep = ''unhealthy'' \<or> overall_health rep = ''healthy''))"
proof -
  assume d: "distinct (map fst (agents s))"
  let ?rep = "run_health_check s"
  have hs: "agent_healths ?rep
      = map (\<lambda>entry. (fst entry, check_agent (heap s (snd entry)))) (agents s)"
    using d by (rule run_health_check_healths)
  have keys: "map fst (agent_healths ?rep) = map fst (agents s)"
    by (simp add: hs comp_def)
  have lookup: "map_of (agent_healths ?rep) name = Some (check_agent (heap s r))"
    if "(name, r) \<in> set (agents s)" for name r
  proof -
    have "(name, check_agent (heap s r)) \<in> set (agent_healths ?rep)"
      using that by (force simp: hs)
    moreover have "distinct (map fst (agent_healths ?rep))" using d keys by simp
    ultimately show ?thesis by simp
  qed
  have ov: "overall_health ?rep =
     (if \<exists>entry\<in>set (agents s). status (check_agent (heap s (snd entry))) = ''error''
      then ''unhealthy'' else ''healthy'')"
    by (simp add: run_health_check_def foldl_health_overall)
  have ex: "(\<exists>(name, ah) \<in> set (agent_healths ?rep). status ah = ''error'')
     \<longleftrightarrow> (\<exists>entry\<in>set (agents s). status (check_agent (heap s (snd entry))) = ''error'')"
    by (simp add: hs case_prod_beta)
  have ov_iff: "overall_health ?rep = ''unhealthy''
          \<longleftrightarrow> (\<exists>(name, ah) \<in> set (agent_healths ?rep). status ah = ''error'')"
    unfolding ex by (simp add: ov)
  have ov2: "overall_health ?rep = ''unhealthy'' \<or> overall_health ?rep = ''healthy''"
    by (simp add: ov)
  have w: "check_agent ob = \<lparr>status = ''warning'', issues = [''Model not loaded'']\<rparr>"
    if "get_model_status_method ob = Some (Inr (Some False))" for ob
    using that by (simp add: check_agent_def probe_agent_def model_not_loaded_warning_def)
  have er: "check_agent ob = \<lparr>status = ''error'', issues = [''Exception: '' @ msg]\<rparr>"
    if "probe_agent ob = Inl msg" for ob msg
    using that by (simp add: check_agent_def)
  have each: "\<forall>(name, r) \<in> set (agents s).
          map_of (agent_healths ?rep) name = Some (check_agent (heap s r))
        \<and> (get_model_status_method (heap s r) = Some (Inr (Some False))
             \<longrightarrow> check_agent (heap s r) = \<lparr>status = ''warning'', issues = [''Model not loaded'']\<rparr>)
        \<and> (status (check_agent (heap s r)) = ''error'' \<longleftrightarrow> isl (probe_agent (heap s r)))
        \<and> (\<forall>msg. probe_agent (heap s r) = Inl msg
             \<longrightarrow> check_agent (heap s r) = \<lparr>status = ''error'', issues = [''Exception: '' @ msg]\<rparr>)"
    using lookup w er check_agent_error_iff by blast
  show ?thesis
    unfolding Let_def using keys each ov_iff ov2 by blast
qed

lemmas health_eval = run_health_check_def health_step_def check_agent_def probe_agent_def
  get_statistics_def healthy_def model_not_loaded_warning_def probed_state_def broken_mock_def
  app_state_def new_coordinator_def app_heap_def register_agent_def
  new_model_management_agent_def Let_def

text \<open>
  The claim on the application before the model is loaded, where the only finding is a
  warning and the overall health stays \<open>healthy\<close>, and on the same application with an
  agent whose probe raises.
\<close>

theorem health_check_report_witness:
  "distinct (map fst (agents probed_state))
   \<and> overall_health (run_health_check probed_state) = ''unhealthy''
   \<and> map_of (agent_healths (run_health_check probed_state)) ''model_management''
       = Some \<lparr>status = ''warning'', issues = [''Model not loaded'']\<rparr>
   \<and> map_of (agent_healths (run_health_check probed_state)) ''mock''
       = Some \<lparr>status = ''error'', issues = [''Exception: status unavailable'']\<rparr>
   \<and> overall_health (run_health_check app_state) = ''healthy''
   \<and> warnings (run_health_check app_state) = [''model_management: Model not loaded'']"
  using health_check_report[of probed_state]
  by (simp add: health_eval)

section \<open>Preprocessing\<close>

text \<open>
  Rounding to a float changes a non-negative number \<open>x\<close> by at most \<open>x / 2 ^ 53\<close>.
\<close>

lemma round_half_even_error:
  "\<bar>of_int (round_half_even q) - q\<bar> \<le> 1 / 2"
proof -
  have "of_int \<lfloor>q\<rfloor> \<le> q" "q < of_int \<lfloor>q\<rfloor> + 1" by linarith+
  then show ?thesis
    by (auto simp: round_half_even_def Let_def abs_le_iff)
qed

lemma binary_exponent_le:
  assumes "0 < x"
  shows "2 powi (binary_exponent x) \<le> x"
proof -
  obtain a b where q: "quotient_of x = (a, b)" by (cases "quotient_of x")
  then have b: "0 < b" and x: "x = of_int a / of_int b"
    by (simp_all add: quotient_of_denom_pos quotient_of_div)
  from assms x b have a: "0 < a" by (simp add: zero_less_divide_iff)
  let ?e = "bitlen a - bitlen b"
  have la: "1 \<le> bitlen a" and lb: "1 \<le> bitlen b"
    using a b by (simp_all add: bitlen_alt_def)
  have ba: "(2::int) ^ nat (bitlen a - 1) \<le> a" using bitlen_bounds[OF a] by simp
  have bb: "b < (2::int) ^ nat (bitlen b)" using bitlen_bounds[OF b] by simp
  have lower: "2 powi (?e - 1) \<le> x"
  proof -
    have "?e - 1 = (bitlen a - 1) - bitlen b" by simp
    then have "(2::rat) powi (?e - 1) = 2 powi ((bitlen a - 1) - bitlen b)" by (rule arg_cong)
    also have "\<dots> = 2 powi (bitlen a - 1) / 2 powi (bitlen b)"
      by (rule power_int_diff) simp
    finally have "(2::rat) powi (?e - 1) = 2 powi (bitlen a - 1) / 2 powi (bitlen b)" .
    also have "\<dots> = 2 ^ nat (bitlen a - 1) / 2 ^ nat (bitlen b)"
      using la lb by (simp add: power_int_def)
    also have "\<dots> \<le> of_int a / of_int b"
    proof -
      have "(of_int ((2::int) ^ nat (bitlen a - 1)) :: rat) \<le> of_int a"
        using ba by (simp only: of_int_le_iff)
      then have A: "(2::rat) ^ nat (bitlen a - 1) \<le> of_int a" by simp
      have "(of_int b :: rat) \<le> of_int ((2::int) ^ nat (bitlen b))"
        using bb by (simp only: of_int_le_iff)
      then have B: "(of_int b :: rat) \<le> 2 ^ nat (bitlen b)" by simp
      have C: "(0::rat) < of_int b" using b by simp
      have D: "(0::rat) \<le> of_int a" using a by simp
      show ?thesis using D A C B by (rule frac_le)
    qed
    finally show ?thesis using x by simp
  qed
  show ?thesis
    using lower q by (simp add: binary_exponent_def Let_def)
qed

lemma fl_pos_error:
  assumes "0 < x"
  shows "\<bar>fl_pos x - x\<bar> \<le> x / 2 ^ 53"
proof -
  let ?e = "binary_exponent x"
  let ?u = "(2::rat) powi (?e - 52)"
  let ?n = "round_half_even (x / ?u)"
  have u: "0 < ?u" by simp
  have "\<bar>of_int ?n - x / ?u\<bar> \<le> 1 / 2" by (rule round_half_even_error)
  then have "\<bar>of_int ?n - x / ?u\<bar> * ?u \<le> 1 / 2 * ?u"
    using u by (intro mult_right_mono) simp_all
  moreover have "\<bar>of_int ?n - x / ?u\<bar> * ?u = \<bar>of_int ?n * ?u - x\<bar>"
  proof -
    have "(of_int ?n - x / ?u) * ?u = of_int ?n * ?u - x"
      using u by (simp add: left_diff_distrib)
    then show ?thesis
      using abs_mult_pos[of ?u "of_int ?n - x / ?u"] u by simp
  qed
  ultimately have "\<bar>of_int ?n * ?u - x\<bar> \<le> ?u / 2" by simp
  moreover have "?u / 2 = 2 powi ?e / 2 ^ 53"
    by (simp add: power_int_diff)
  moreover have "2 powi ?e / 2 ^ 53 \<le> x / 2 ^ 53"
    using binary_exponent_le[OF assms] by (simp add: divide_right_mono)
  ultimately show ?thesis by (simp add: fl_pos_def Let_def)
qed

lemma fl_bounds:
  assumes "0 \<le> x"
  shows "x * (1 - 1 / 2 ^ 53) \<le> fl x" and "fl x \<le> x * (1 + 1 / 2 ^ 53)"
proof -
  have "x * (1 - 1 / 2 ^ 53) \<le> fl x \<and> fl x \<le> x * (1 + 1 / 2 ^ 53)"
  proof (cases "x = 0")
    case True
    then show ?thesis by (simp add: fl_def)
  next
    case False
    with assms have "0 < x" by simp
    have "\<bar>fl_pos x - x\<bar> \<le> x / 2 ^ 53" using \<open>0 < x\<close> by (rule fl_pos_error)
    then have "fl_pos x - x \<le> x / 2 ^ 53" "x - fl_pos x \<le> x / 2 ^ 53"
      by linarith+
    then have "x * (1 - 1 / 2 ^ 53) \<le> fl_pos x \<and> fl_pos x \<le> x * (1 + 1 / 2 ^ 53)"
      by (simp add: algebra_simps)
    with \<open>0 < x\<close> show ?thesis by (simp add: fl_def)
  qed
  then show "x * (1 - 1 / 2 ^ 53) \<le> fl x" and "fl x \<le> x * (1 + 1 / 2 ^ 53)" by simp_all
qed


lemma fl_nonneg: "0 \<le> x \<Longrightarrow> 0 \<le> fl x"
proof -
  assume x: "0 \<le> x"
  have "0 \<le> x * (1 - 1 / 2 ^ 53)" using x by (intro mult_nonneg_nonneg) simp_all
  with fl_bounds(1)[OF x] show ?thesis by linarith
qed

lemma fl_nonpos: "x \<le> 0 \<Longrightarrow> fl x \<le> 0"
proof (cases "x = 0")
  case True
  then show ?thesis by (simp add: fl_def)
next
  case False
  assume "x \<le> 0"
  with False have neg: "0 < - x" by simp
  then have "0 \<le> fl (- x)" by (intro fl_nonneg) simp
  with neg False \<open>x \<le> 0\<close> show ?thesis by (simp add: fl_def)
qed

lemma cube_bounds:
  "(1 + 1 / 2 ^ 53) * (1 + 1 / 2 ^ 53) * (1 + 1 / 2 ^ 53) \<le> (1 + 1 / (1024 * 2 ^ 40) :: rat)"
  "(1 - 1 / (1024 * 2 ^ 40) :: rat) \<le> (1 - 1 / 2 ^ 53) * (1 - 1 / 2 ^ 53) * (1 - 1 / 2 ^ 53)"
  by simp_all

lemma scaled_bounds:
  assumes M: "1024 < M" and d0: "0 \<le> d" and dM: "d \<le> M"
  defines "q \<equiv> (1024 * of_int d / of_int M :: rat)"
  defines "c \<equiv> int_times_float d (int_truediv max_dimension M)"
  shows "q - 1 / 2 ^ 40 \<le> c" and "c \<le> q + 1 / 2 ^ 40" and "0 \<le> c" and "q \<le> 1024"
proof -
  let ?eu = "(1 + 1 / 2 ^ 53 :: rat)" and ?el = "(1 - 1 / 2 ^ 53 :: rat)"
  let ?r = "int_truediv max_dimension M"
  let ?a = "fl (of_int d)"
  let ?x = "(1024 / of_int M :: rat)"
  have Mpos: "(0::rat) < of_int M" using M by simp
  have x0: "0 \<le> ?x" using Mpos by simp
  have r_def: "?r = fl ?x" by (simp add: int_truediv_def max_dimension_def)
  have r_up: "?r \<le> ?x * ?eu" and r_lo: "?x * ?el \<le> ?r"
    unfolding r_def using fl_bounds[OF x0] by simp_all
  have r0: "0 \<le> ?r" unfolding r_def using x0 by (rule fl_nonneg)
  have d0': "(0::rat) \<le> of_int d" using d0 by simp
  have a_up: "?a \<le> of_int d * ?eu" and a_lo: "of_int d * ?el \<le> ?a"
    using fl_bounds[OF d0'] by simp_all
  have a0: "0 \<le> ?a" using d0' by (rule fl_nonneg)
  have p0: "0 \<le> ?a * ?r" using a0 r0 by simp
  have c_def': "c = fl (?a * ?r)" by (simp add: c_def int_times_float_def)
  have q_eq: "q = of_int d * ?x" by (simp add: q_def)
  have q0: "0 \<le> q" unfolding q_eq using d0' x0 by simp
  have q1024: "q \<le> 1024"
  proof -
    have "of_int d / of_int M \<le> (1::rat)" using dM Mpos by simp
    then have "1024 * (of_int d / of_int M) \<le> (1024::rat)" by simp
    then show ?thesis by (simp add: q_def)
  qed
  have p_up: "?a * ?r \<le> q * (?eu * ?eu)"
  proof -
    have "?a * ?r \<le> (of_int d * ?eu) * (?x * ?eu)"
      using a_up r_up a0 r0 by (intro mult_mono) (auto intro: order_trans)
    then show ?thesis by (simp add: q_eq mult_ac)
  qed
  have p_lo: "q * (?el * ?el) \<le> ?a * ?r"
  proof -
    have "(of_int d * ?el) * (?x * ?el) \<le> ?a * ?r"
      using a_lo r_lo d0' x0 a0 by (intro mult_mono) simp_all
    then show ?thesis by (simp add: q_eq mult_ac)
  qed
  have c_up: "c \<le> q * (?eu * ?eu * ?eu)"
  proof -
    have "c \<le> (?a * ?r) * ?eu" unfolding c_def' using fl_bounds(2)[OF p0] .
    also have "\<dots> \<le> (q * (?eu * ?eu)) * ?eu"
      using p_up by (intro mult_right_mono) simp_all
    finally show ?thesis by (simp add: mult_ac)
  qed
  have c_lo: "q * (?el * ?el * ?el) \<le> c"
  proof -
    have "(q * (?el * ?el)) * ?el \<le> (?a * ?r) * ?el"
      using p_lo by (intro mult_right_mono) simp_all
    also have "\<dots> \<le> c" unfolding c_def' using fl_bounds(1)[OF p0] .
    finally show ?thesis by (simp add: mult_ac)
  qed
  have "q * (?eu * ?eu * ?eu) \<le> q * (1 + 1 / (1024 * 2 ^ 40))"
    using cube_bounds(1) q0 by (intro mult_left_mono) (simp_all add: mult.assoc)
  also have "\<dots> = q + q / (1024 * 2 ^ 40)" by (simp add: algebra_simps)
  also have "\<dots> \<le> q + 1 / 2 ^ 40" using q1024 by simp
  finally have up: "q * (?eu * ?eu * ?eu) \<le> q + 1 / 2 ^ 40" .
  have "q - 1 / 2 ^ 40 \<le> q - q / (1024 * 2 ^ 40)" using q1024 by simp
  also have "\<dots> = q * (1 - 1 / (1024 * 2 ^ 40))" by (simp add: algebra_simps)
  also have "\<dots> \<le> q * (?el * ?el * ?el)"
    using cube_bounds(2) q0 by (intro mult_left_mono) (simp_all add: mult.assoc)
  finally have lo: "q - 1 / 2 ^ 40 \<le> q * (?el * ?el * ?el)" .
  show "q - 1 / 2 ^ 40 \<le> c" using lo c_lo by linarith
  show "c \<le> q + 1 / 2 ^ 40" using up c_up by linarith
  show "0 \<le> c" unfolding c_def' using p0 by (rule fl_nonneg)
  show "q \<le> 1024" by (rule q1024)
qed


lemma new_dim_bounds:
  assumes M: "1024 < M" and d0: "0 \<le> d" and dM: "d \<le> M"
  shows "int_of_float (int_times_float d (int_truediv max_dimension M)) \<le> 1024"
    and "1024 * of_int d / of_int M - 1 - 1 / 2 ^ 40
           < (of_int (int_of_float (int_times_float d (int_truediv max_dimension M))) :: rat)"
    and "(of_int (int_of_float (int_times_float d (int_truediv max_dimension M))) :: rat)
           \<le> 1024 * of_int d / of_int M + 1 / 2 ^ 40"
proof -
  let ?c = "int_times_float d (int_truediv max_dimension M)"
  let ?q = "(1024 * of_int d / of_int M :: rat)"
  note b = scaled_bounds[OF M d0 dM]
  have fl_eq: "int_of_float ?c = \<lfloor>?c\<rfloor>" using b(3) by (simp add: int_of_float_def)
  have le: "(of_int \<lfloor>?c\<rfloor> :: rat) \<le> ?c" and gt: "?c - 1 < of_int \<lfloor>?c\<rfloor>" by linarith+
  have "?c < 1025" using b(2) b(4) by simp
  then have "\<lfloor>?c\<rfloor> < 1025" by (simp add: floor_less_iff)
  then show "int_of_float ?c \<le> 1024" by (simp add: fl_eq)
  show "?q - 1 - 1 / 2 ^ 40 < of_int (int_of_float ?c)"
    unfolding fl_eq using gt b(1) by linarith
  show "of_int (int_of_float ?c) \<le> ?q + 1 / 2 ^ 40"
    unfolding fl_eq using le b(2) by linarith
qed

lemma new_dim_nonpos:
  assumes M: "1024 < M" and d: "d < 0"
  shows "int_of_float (int_times_float d (int_truediv max_dimension M)) \<le> 0"
proof -
  have "(0::rat) \<le> 1024 / of_int M" using M by simp
  then have r0: "0 \<le> int_truediv max_dimension M"
    by (simp add: int_truediv_def max_dimension_def fl_nonneg)
  have "fl (of_int d) \<le> 0" using d by (intro fl_nonpos) simp
  then have "fl (of_int d) * int_truediv max_dimension M \<le> 0"
    using r0 by (rule mult_nonpos_nonneg)
  then have "int_times_float d (int_truediv max_dimension M) \<le> 0"
    unfolding int_times_float_def by (rule fl_nonpos)
  then show ?thesis
    by (auto simp: int_of_float_def ceiling_le_iff)
qed

lemma new_size_2048: "new_size (2048, 1000) = (1024, 500)"
  by code_simp

lemma new_size_5000: "new_size (5000, 1) = (1024, 0)"
  by code_simp

text \<open>
  Claim C10. When the \<open>try\<close> block of \<open>preprocess_image\<close> completes without an exception,
  the image returned is in mode RGB and neither side exceeds 1024. An image whose larger
  side is at most 1024 keeps its size. A larger image gets the size \<open>new_size\<close>: both
  sides are scaled by the same factor, 1024 over the larger side, and rounded down to
  whole pixels, so each new side is positive and lies within one pixel below the exactly
  scaled side \<open>1024 * d / M\<close> (up to the rounding error of the float arithmetic, at most
  \<open>1 / 2 ^ 40\<close>).
\<close>

theorem preprocess_image_normal_path:
  "preprocess_image_try e img = Inr img' \<Longrightarrow>
   (let (w, h) = size_wh img; (w', h') = size_wh img'; M = max w h in
      preprocess_image e img = img'
    \<and> mode img' = ''RGB''
    \<and> max w' h' \<le> 1024
    \<and> (M \<le> 1024 \<longrightarrow> (w', h') = (w, h))
    \<and> (1024 < M \<longrightarrow>
          (w', h') = new_size (w, h) \<and> 0 < w' \<and> 0 < h'
        \<and> 1024 * of_int w / of_int M - 1 - 1 / 2 ^ 40 < (of_int w' :: rat)
        \<and> (of_int w' :: rat) \<le> 1024 * of_int w / of_int M + 1 / 2 ^ 40
        \<and> 1024 * of_int h / of_int M - 1 - 1 / 2 ^ 40 < (of_int h' :: rat)
        \<and> (of_int h' :: rat) \<le> 1024 * of_int h / of_int M + 1 / 2 ^ 40))"
proof -
  assume ok: "preprocess_image_try e img = Inr img'"
  obtain w h where wh: "size_wh img = (w, h)" by (cases "size_wh img")
  obtain w' h' where wh': "size_wh img' = (w', h')" by (cases "size_wh img'")
  let ?M = "max w h"
  have ret: "preprocess_image e img = img'" using ok by (simp add: preprocess_image_def)
  obtain img1 where conv: "(if mode img \<noteq> ''RGB'' then pil_convert_rgb e img else Inr img) = Inr img1"
    using ok by (auto simp: preprocess_image_try_def split: sum.splits)
  have m1: "mode img1 = ''RGB''" and s1: "size_wh img1 = (w, h)"
    using conv wh by (auto simp: pil_convert_rgb_def split: if_splits option.splits)
  show ?thesis
  proof (cases "1024 < ?M")
    case False
    then have "img' = img1"
      using ok conv s1 by (simp add: preprocess_image_try_def max_dimension_def)
    with False ret m1 s1 wh wh' show ?thesis by (auto simp: Let_def)
  next
    case True
    then have rs: "pil_resize img1 (new_size (w, h)) = Inr img'"
      using ok conv s1 by (simp add: preprocess_image_try_def max_dimension_def split: sum.splits)
    then have sz: "(w', h') = new_size (w, h)" and pos: "0 < w'" "0 < h'" and m': "mode img' = ''RGB''"
      using wh' m1 by (auto simp: pil_resize_def split: if_splits)
    let ?nw = "int_of_float (int_times_float w (int_truediv max_dimension ?M))"
    let ?nh = "int_of_float (int_times_float h (int_truediv max_dimension ?M))"
    have nw: "w' = ?nw" and nh: "h' = ?nh" using sz by (simp_all add: new_size_def Let_def)
    have w0: "0 \<le> w"
    proof (rule ccontr)
      assume "\<not> 0 \<le> w"
      then have "?nw \<le> 0" using True by (intro new_dim_nonpos) simp_all
      with pos(1) nw show False by simp
    qed
    have h0: "0 \<le> h"
    proof (rule ccontr)
      assume "\<not> 0 \<le> h"
      then have "?nh \<le> 0" using True by (intro new_dim_nonpos) simp_all
      with pos(2) nh show False by simp
    qed
    note bw = new_dim_bounds[OF True w0, of] and bh = new_dim_bounds[OF True h0]
    have bw': "w' \<le> 1024" "1024 * of_int w / of_int ?M - 1 - 1 / 2 ^ 40 < (of_int w' :: rat)"
      "(of_int w' :: rat) \<le> 1024 * of_int w / of_int ?M + 1 / 2 ^ 40"
      using bw nw by simp_all
    have bh': "h' \<le> 1024" "1024 * of_int h / of_int ?M - 1 - 1 / 2 ^ 40 < (of_int h' :: rat)"
      "(of_int h' :: rat) \<le> 1024 * of_int h / of_int ?M + 1 / 2 ^ 40"
      using bh nh by simp_all
    from True ret m' sz[symmetric] pos bw' bh' wh wh' show ?thesis by (auto simp: Let_def)
  qed
qed

text \<open>The claim on a 2048 by 1000 RGBA image: the result is 1024 by 500 in mode RGB.\<close>

theorem preprocess_image_normal_path_witness:
  "preprocess_image_try env_inference_fails wide_rgba
     = Inr \<lparr>mode = ''RGB'', size_wh = (1024, 500)\<rparr>
   \<and> preprocess_image env_inference_fails wide_rgba
     = \<lparr>mode = ''RGB'', size_wh = (1024, 500)\<rparr>"
  using preprocess_image_normal_path
    [of env_inference_fails wide_rgba "\<lparr>mode = ''RGB'', size_wh = (1024, 500)\<rparr>"]
  by (simp add: preprocess_image_try_def preprocess_image_def pil_convert_rgb_def
        pil_resize_def wide_rgba_def env_inference_fails_def max_dimension_def new_size_2048)

text \<open>
  The exception path is outside the claim: for a 5000 by 1 image the new height is 0,
  \<^verbatim>\<open>resize\<close> raises, and the handler returns the image at its full size.
\<close>

lemma preprocess_image_thin_strip:
  "preprocess_image env_inference_fails thin_strip = thin_strip"
  by (simp add: preprocess_image_try_def preprocess_image_def pil_resize_def
        thin_strip_def max_dimension_def new_size_5000)

end
